theory Spec2Isabelle
  imports Main "HOL-Library.Word"
begin

section \<open>The SDR task of the sealing pipeline (tasks/seal/task\_sdr.go)\<close>

text \<open>
  The development embeds \<^verbatim>\<open>SDRTask.Do\<close>, \<^verbatim>\<open>SDRTask.getTicket\<close> and
  \<^verbatim>\<open>SDRTask.CanAccept\<close>. Go's \<^verbatim>\<open>int64\<close> and \<^verbatim>\<open>uint64\<close> are 64-bit words
  (\<^verbatim>\<open>abi.PaddedPieceSize\<close>, \<^verbatim>\<open>abi.UnpaddedPieceSize\<close>, \<^verbatim>\<open>abi.SectorSize\<close>,
  \<^verbatim>\<open>abi.ActorID\<close> and \<^verbatim>\<open>abi.SectorNumber\<close> are \<^verbatim>\<open>uint64\<close>;
  \<^verbatim>\<open>abi.ChainEpoch\<close> and \<^verbatim>\<open>abi.RegisteredSealProof\<close> are \<^verbatim>\<open>int64\<close>), so
  that \<open>+\<close> and \<open>-\<close> wrap as they do in Go and a conversion between the two is
  the identity on the bits. An \<^verbatim>\<open>error\<close> value is its message; a run-time panic is
  a result of its own.
\<close>

subsection \<open>Data\<close>

type_synonym i64 = "64 word"
type_synonym u64 = "64 word"
type_synonym bytes = "8 word list"
type_synonym TaskID = int
type_synonym err = string

text \<open>A content identifier is opaque to the task; the model keeps it symbolic.\<close>

datatype cid =
    ParsedCid string
  | ZeroCommitment u64
  | UnsealedCid i64 "(u64 \<times> cid) list"

record PieceInfo =
  Size :: u64
  PieceCID :: cid

record SectorRef =
  Miner :: u64
  Number :: u64
  ProofType :: i64

datatype address = IDAddress u64

record TipSet =
  Height :: i64
  Key :: string

datatype DomainSeparationTag =
    TicketProduction
  | ElectionProofProduction
  | WinningPoStChallengeSeed
  | WindowedPoStChallengeSeed
  | SealRandomness
  | InteractiveSealChallengeSeed

text \<open>
  A row of \<^verbatim>\<open>sectors_sdr_pipeline\<close>, with the columns the three statements of
  \<^verbatim>\<open>Do\<close> read or write, and a row of \<^verbatim>\<open>sectors_sdr_initial_pieces\<close>.
\<close>

record pipeline_row =
  sp_id :: i64
  sector_number :: i64
  reg_seal_proof :: i64
  task_id_sdr :: "TaskID option"
  after_sdr :: bool
  ticket_epoch :: "i64 option"
  ticket_value :: "bytes option"

record piece_row =
  piece_sp_id :: i64
  piece_sector_number :: i64
  piece_index :: i64
  piece_cid :: string
  piece_size :: i64
  data_raw_size :: "i64 option"

record db =
  sectors_sdr_pipeline :: "pipeline_row list"
  sectors_sdr_initial_pieces :: "piece_row list"

text \<open>The two anonymous structs that \<^verbatim>\<open>Do\<close> scans rows into.\<close>

record sector_params =
  SpID :: i64
  SectorNumber :: i64
  RegSealProof :: i64

record piece =
  PieceIndex :: i64
  PieceCIDStr :: string
  PieceSize :: i64
  DataRawSize :: "i64 option"

subsection \<open>Results, errors and the calls that leave the task\<close>

datatype panic = NilPointerDereference | IndexOutOfRange

datatype 'a go = Returns 'a | Panics panic

datatype ticket_error =
    GettingChainHead err
  | MarshalingMinerAddress err
  | GettingRandomnessFromTickets err

datatype do_error =
    GettingSectorParams err
  | ExpectedOneSectorParams nat
  | GettingPieces err
  | GettingSectorSize err
  | ParsingPieceCid err
  | FinalPadding err
  | ComputingCommD err
  | GettingMinerAddress err
  | GettingTicket ticket_error
  | GeneratingSdr err
  | UpdatingPipeline err
  | UpdatedRows int

datatype event =
    GenerateUnsealedCIDCall i64 "PieceInfo list"
  | ChainHeadCall
  | RandomnessCall DomainSeparationTag i64 bytes string
  | GenerateSDRCall TaskID SectorRef bytes cid
  | ExecUpdateCall i64 i64 i64 bytes int

datatype 'a step = Next 'a | Fail do_error | Crash panic

subsection \<open>The collaborators\<close>

text \<open>
  Everything \<^verbatim>\<open>Do\<close> calls that is not in task\_sdr.go is a field of \<open>deps\<close>:
  the packages \<^verbatim>\<open>abi\<close>, \<^verbatim>\<open>cid\<close>, \<^verbatim>\<open>ffiwrapper\<close>, \<^verbatim>\<open>filler\<close>,
  \<^verbatim>\<open>zerocomm\<close>, \<^verbatim>\<open>nonffi\<close>, \<^verbatim>\<open>address\<close> and \<^verbatim>\<open>policy\<close>, the chain
  API, the sealing calls, and whether each of the three database statements
  reaches the database (\<open>None\<close>) or fails with an error. A call of a
  collaborator returns, with a value or with an error: a panic raised inside a
  library (a division by a piece size of zero in \<^verbatim>\<open>GetRequiredPadding\<close>, a size
  outside the table of \<^verbatim>\<open>zerocomm\<close>) is not part of the model, and no theorem
  below says that \<^verbatim>\<open>Do\<close> is free of such panics.
\<close>

record deps =
  selectParamsErr :: "err option"
  selectPiecesErr :: "err option"
  execErr :: "err option"
  SectorSize :: "i64 \<Rightarrow> err + u64"
  cid_Parse :: "string \<Rightarrow> err + cid"
  Padded :: "u64 \<Rightarrow> u64"
  Unpadded :: "u64 \<Rightarrow> u64"
  GetRequiredPadding :: "u64 \<Rightarrow> u64 \<Rightarrow> u64 list \<times> u64"
  FillersFromRem :: "u64 \<Rightarrow> err + u64 list"
  ZeroPieceCommitment :: "u64 \<Rightarrow> cid"
  GenerateUnsealedCID :: "i64 \<Rightarrow> PieceInfo list \<Rightarrow> err + cid"
  NewIDAddress :: "u64 \<Rightarrow> err + address"
  MarshalCBOR :: "address \<Rightarrow> err + bytes"
  ChainHead :: "err + TipSet"
  StateGetRandomnessFromTickets ::
    "DomainSeparationTag \<Rightarrow> i64 \<Rightarrow> bytes \<Rightarrow> string \<Rightarrow> err + bytes"
  SealRandomnessLookback :: i64
  GenerateSDR :: "TaskID \<Rightarrow> SectorRef \<Rightarrow> bytes \<Rightarrow> cid \<Rightarrow> err option"

subsection \<open>The three database statements of Do\<close>

text \<open>
  \<^verbatim>\<open>SELECT sp_id, sector_number, reg_seal_proof FROM sectors_sdr_pipeline
  WHERE task_id_sdr = $1\<close>
\<close>

definition selectSectorParams :: "deps \<Rightarrow> db \<Rightarrow> TaskID \<Rightarrow> err + sector_params list" where
  "selectSectorParams env d taskID =
     (case selectParamsErr env of
        Some e \<Rightarrow> Inl e
      | None \<Rightarrow>
          Inr (map (\<lambda>r. \<lparr>SpID = sp_id r, SectorNumber = sector_number r,
                          RegSealProof = reg_seal_proof r\<rparr>)
                 (filter (\<lambda>r. task_id_sdr r = Some taskID) (sectors_sdr_pipeline d))))"

text \<open>
  \<^verbatim>\<open>SELECT piece_index, piece_cid, piece_size, data_raw_size
  FROM sectors_sdr_initial_pieces
  WHERE sp_id = $1 AND sector_number = $2 ORDER BY piece_index ASC\<close>;
  the column is a signed 64-bit integer, and rows of equal index keep their
  table order.
\<close>

definition selectPieces :: "deps \<Rightarrow> db \<Rightarrow> i64 \<Rightarrow> i64 \<Rightarrow> err + piece list" where
  "selectPieces env d sp num =
     (case selectPiecesErr env of
        Some e \<Rightarrow> Inl e
      | None \<Rightarrow>
          Inr (map (\<lambda>r. \<lparr>PieceIndex = piece_index r, PieceCIDStr = piece_cid r,
                          PieceSize = piece_size r, DataRawSize = data_raw_size r\<rparr>)
                 (sort_key (\<lambda>r. sint (piece_index r))
                    (filter (\<lambda>r. piece_sp_id r = sp \<and> piece_sector_number r = num)
                       (sectors_sdr_initial_pieces d)))))"

text \<open>
  \<^verbatim>\<open>UPDATE sectors_sdr_pipeline
  SET after_sdr = true, ticket_epoch = $3, ticket_value = $4, task_id_sdr = NULL
  WHERE sp_id = $1 AND sector_number = $2\<close>;
  the result is the number of rows the statement changed, and the table after
  it. A statement that fails changes nothing.
\<close>

definition execUpdate :: "deps \<Rightarrow> db \<Rightarrow> i64 \<Rightarrow> i64 \<Rightarrow> i64 \<Rightarrow> bytes \<Rightarrow> (err + int) \<times> db" where
  "execUpdate env d sp num ticketEpoch ticket =
     (case execErr env of
        Some e \<Rightarrow> (Inl e, d)
      | None \<Rightarrow>
          (Inr (int (length (filter (\<lambda>r. sp_id r = sp \<and> sector_number r = num)
                               (sectors_sdr_pipeline d)))),
           d\<lparr>sectors_sdr_pipeline :=
                map (\<lambda>r. if sp_id r = sp \<and> sector_number r = num
                          then r\<lparr>after_sdr := True, ticket_epoch := Some ticketEpoch,
                                 ticket_value := Some ticket, task_id_sdr := None\<rparr>
                          else r)
                  (sectors_sdr_pipeline d)\<rparr>))"

subsection \<open>The piece layout (lines 109 to 155 of task\_sdr.go)\<close>

text \<open>
  The loop over the pieces, with the running \<^verbatim>\<open>offset\<close> and \<^verbatim>\<open>pieceInfos\<close> as
  accumulators. \<^verbatim>\<open>*p.DataRawSize\<close> on a NULL column is a nil dereference; it is
  reached after the piece's CID has parsed and its entries have been appended.
\<close>

definition padInfos :: "deps \<Rightarrow> u64 list \<Rightarrow> PieceInfo list" where
  "padInfos env pads =
     map (\<lambda>pad. \<lparr>Size = pad, PieceCID = ZeroPieceCommitment env (Unpadded env pad)\<rparr>) pads"

fun piecesLoop :: "deps \<Rightarrow> piece list \<Rightarrow> u64 \<Rightarrow> PieceInfo list \<Rightarrow> (u64 \<times> PieceInfo list) step" where
  "piecesLoop env [] offset pieceInfos = Next (offset, pieceInfos)"
| "piecesLoop env (p # ps) offset pieceInfos =
     (case cid_Parse env (PieceCIDStr p) of
        Inl e \<Rightarrow> Fail (ParsingPieceCid e)
      | Inr c \<Rightarrow>
          (case GetRequiredPadding env (Padded env offset) (PieceSize p) of
             (pads, padLength) \<Rightarrow>
               (case DataRawSize p of
                  None \<Rightarrow> Crash NilPointerDereference
                | Some raw \<Rightarrow>
                    piecesLoop env ps (offset + Unpadded env padLength + raw)
                      (pieceInfos @ padInfos env pads
                         @ [\<lparr>Size = PieceSize p, PieceCID = c\<rparr>]))))"

definition fillerInfos :: "deps \<Rightarrow> u64 list \<Rightarrow> PieceInfo list" where
  "fillerInfos env fillerSize =
     map (\<lambda>fil. \<lparr>Size = Padded env fil, PieceCID = ZeroPieceCommitment env fil\<rparr>) fillerSize"

text \<open>
  The piece-info sequence that reaches the aggregation: the loop, then the
  trailing fillers for \<^verbatim>\<open>abi.PaddedPieceSize(ssize).Unpadded() - offset\<close>, an
  unsigned subtraction.
\<close>

definition buildPieceInfos :: "deps \<Rightarrow> u64 \<Rightarrow> piece list \<Rightarrow> PieceInfo list step" where
  "buildPieceInfos env ssize pieces =
     (case piecesLoop env pieces 0 [] of
        Fail e \<Rightarrow> Fail e
      | Crash p \<Rightarrow> Crash p
      | Next (offset, pieceInfos) \<Rightarrow>
          (case FillersFromRem env (Unpadded env ssize - offset) of
             Inl e \<Rightarrow> Fail (FinalPadding e)
           | Inr fillerSize \<Rightarrow> Next (pieceInfos @ fillerInfos env fillerSize)))"

definition computeCommD :: "deps \<Rightarrow> i64 \<Rightarrow> u64 \<Rightarrow> piece list \<Rightarrow> cid step \<times> event list" where
  "computeCommD env proof ssize pieces =
     (if length pieces > 0 then
        (case buildPieceInfos env ssize pieces of
           Fail e \<Rightarrow> (Fail e, [])
         | Crash p \<Rightarrow> (Crash p, [])
         | Next pieceInfos \<Rightarrow>
             (case GenerateUnsealedCID env proof pieceInfos of
                Inl e \<Rightarrow> (Fail (ComputingCommD e), [GenerateUnsealedCIDCall proof pieceInfos])
              | Inr commd \<Rightarrow> (Next commd, [GenerateUnsealedCIDCall proof pieceInfos])))
      else (Next (ZeroPieceCommitment env (Unpadded env ssize)), []))"

subsection \<open>getTicket\<close>

definition getTicket :: "deps \<Rightarrow> address \<Rightarrow> (ticket_error + bytes \<times> i64) \<times> event list" where
  "getTicket env maddr =
     (case ChainHead env of
        Inl e \<Rightarrow> (Inl (GettingChainHead e), [ChainHeadCall])
      | Inr ts \<Rightarrow>
          (let ticketEpoch = Height ts - SealRandomnessLookback env in
           case MarshalCBOR env maddr of
             Inl e \<Rightarrow> (Inl (MarshalingMinerAddress e), [ChainHeadCall])
           | Inr buf \<Rightarrow>
               (case StateGetRandomnessFromTickets env SealRandomness ticketEpoch buf (Key ts) of
                  Inl e \<Rightarrow>
                    (Inl (GettingRandomnessFromTickets e),
                     [ChainHeadCall, RandomnessCall SealRandomness ticketEpoch buf (Key ts)])
                | Inr rand \<Rightarrow>
                    (Inr (rand, ticketEpoch),
                     [ChainHeadCall, RandomnessCall SealRandomness ticketEpoch buf (Key ts)]))))"

subsection \<open>Do\<close>

text \<open>
  The last stage of \<^verbatim>\<open>Do\<close>: the encoding call and the update that stores its
  success (lines 188 to 205).
\<close>

definition sdrAndStore ::
  "deps \<Rightarrow> TaskID \<Rightarrow> db \<Rightarrow> sector_params \<Rightarrow> SectorRef \<Rightarrow> bytes \<Rightarrow> i64 \<Rightarrow> cid
     \<Rightarrow> (bool \<times> do_error option) go \<times> db \<times> event list" where
  "sdrAndStore env taskID d sectorParams sref ticket ticketEpoch commd =
     (case GenerateSDR env taskID sref ticket commd of
        Some e \<Rightarrow>
          (Returns (False, Some (GeneratingSdr e)), d, [GenerateSDRCall taskID sref ticket commd])
      | None \<Rightarrow>
          (case execUpdate env d (SpID sectorParams) (SectorNumber sectorParams) ticketEpoch ticket of
             (Inl e, d') \<Rightarrow>
               (Returns (False, Some (UpdatingPipeline e)), d',
                [GenerateSDRCall taskID sref ticket commd])
           | (Inr n, d') \<Rightarrow>
               (if n \<noteq> 1 then Returns (False, Some (UpdatedRows n)) else Returns (True, None),
                d',
                [GenerateSDRCall taskID sref ticket commd,
                 ExecUpdateCall (SpID sectorParams) (SectorNumber sectorParams)
                   ticketEpoch ticket n])))"

text \<open>
  From the commitment on (lines 157 to 205): the sector reference, the miner
  address, the ticket, then the last stage.
\<close>

definition ticketAndSeal ::
  "deps \<Rightarrow> TaskID \<Rightarrow> db \<Rightarrow> sector_params \<Rightarrow> cid
     \<Rightarrow> (bool \<times> do_error option) go \<times> db \<times> event list" where
  "ticketAndSeal env taskID d sectorParams commd =
     (let sref = \<lparr>Miner = SpID sectorParams, Number = SectorNumber sectorParams,
                  ProofType = RegSealProof sectorParams\<rparr> in
      case NewIDAddress env (SpID sectorParams) of
        Inl e \<Rightarrow> (Returns (False, Some (GettingMinerAddress e)), d, [])
      | Inr maddr \<Rightarrow>
          (case getTicket env maddr of
             (Inl e, evs) \<Rightarrow> (Returns (False, Some (GettingTicket e)), d, evs)
           | (Inr (ticket, ticketEpoch), evs) \<Rightarrow>
               (case sdrAndStore env taskID d sectorParams sref ticket ticketEpoch commd of
                  (r, d', evs') \<Rightarrow> (r, d', evs @ evs'))))"

text \<open>
  \<^verbatim>\<open>Do\<close> itself. Its result is what it returns or the panic it dies of, the
  database after it, and the calls it made in order. The callback
  \<^verbatim>\<open>stillOwned\<close> is a parameter as in the source, whose body never mentions it.
\<close>

definition Do ::
  "deps \<Rightarrow> TaskID \<Rightarrow> (unit \<Rightarrow> bool) \<Rightarrow> db \<Rightarrow> (bool \<times> do_error option) go \<times> db \<times> event list" where
  "Do env taskID stillOwned d =
     (case selectSectorParams env d taskID of
        Inl e \<Rightarrow> (Returns (False, Some (GettingSectorParams e)), d, [])
      | Inr sectorParamsArr \<Rightarrow>
          if length sectorParamsArr \<noteq> 1
          then (Returns (False, Some (ExpectedOneSectorParams (length sectorParamsArr))), d, [])
          else
            (let sectorParams = sectorParamsArr ! 0 in
             case selectPieces env d (SpID sectorParams) (SectorNumber sectorParams) of
               Inl e \<Rightarrow> (Returns (False, Some (GettingPieces e)), d, [])
             | Inr pieces \<Rightarrow>
                 (case SectorSize env (RegSealProof sectorParams) of
                    Inl e \<Rightarrow> (Returns (False, Some (GettingSectorSize e)), d, [])
                  | Inr ssize \<Rightarrow>
                      (case computeCommD env (RegSealProof sectorParams) ssize pieces of
                         (Fail e, evs) \<Rightarrow> (Returns (False, Some e), d, evs)
                       | (Crash p, evs) \<Rightarrow> (Panics p, d, evs)
                       | (Next commd, evs) \<Rightarrow>
                           (case ticketAndSeal env taskID d sectorParams commd of
                              (r, d', evs') \<Rightarrow> (r, d', evs @ evs'))))))"

subsection \<open>CanAccept\<close>

text \<open>
  \<^verbatim>\<open>id := ids[0]; return &id, nil\<close>. Indexing an empty slice panics. The result
  is the pointer (\<open>None\<close> for nil) and the error.
\<close>

definition CanAccept :: "TaskID list \<Rightarrow> 'engine \<Rightarrow> (TaskID option \<times> err option) go" where
  "CanAccept ids engine =
     (case ids of
        [] \<Rightarrow> Panics IndexOutOfRange
      | x # _ \<Rightarrow> Returns (Some x, None))"

subsection \<open>A reference instance of the collaborators\<close>

text \<open>
  The theorems below hold for every \<open>deps\<close> that meets the contract they
  name. The instance \<open>refEnv\<close> is used to run \<^verbatim>\<open>Do\<close> on concrete tables.
\<close>

text \<open>
  Modelled from the spec: \<^verbatim>\<open>UnpaddedPieceSize.Padded\<close> and
  \<^verbatim>\<open>PaddedPieceSize.Unpadded\<close> of package \<^verbatim>\<open>abi\<close> are not in the repository; the
  spec names them (\<^verbatim>\<open>sectorCapacity.unpadded()\<close>). The instance is the ratio
  of 127 unpadded bytes to 128 padded bytes, in unsigned 64-bit arithmetic.
\<close>

definition refPadded :: "u64 \<Rightarrow> u64" where
  "refPadded s = s + s div 127"

definition refUnpadded :: "u64 \<Rightarrow> u64" where
  "refUnpadded s = s - s div 128"

text \<open>The powers of two whose sum is \<open>w\<close>, smallest first or largest first.\<close>

definition pow2BlocksUp :: "u64 \<Rightarrow> u64 list" where
  "pow2BlocksUp w = map (\<lambda>i. 2 ^ i) (filter (bit w) [0..<64])"

definition pow2BlocksDown :: "u64 \<Rightarrow> u64 list" where
  "pow2BlocksDown w = map (\<lambda>i. 2 ^ i) (rev (filter (bit w) [0..<64]))"

text \<open>
  Modelled from the spec: \<^verbatim>\<open>ffiwrapper.GetRequiredPadding\<close> is not in the
  repository. The spec: "the padding required to align the current offset to the
  piece's own padded-size boundary (padding is always itself expressible as a
  sequence of power-of-two-sized filler blocks)". The padding is the distance
  from the old length to the next multiple of the new piece's length.
\<close>

definition refGetRequiredPadding :: "u64 \<Rightarrow> u64 \<Rightarrow> u64 list \<times> u64" where
  "refGetRequiredPadding oldLength newPieceLength =
     (let toFill = (- oldLength) mod newPieceLength in (pow2BlocksUp toFill, toFill))"

text \<open>
  Modelled from the spec: \<^verbatim>\<open>filler.FillersFromRem\<close> (lib/filler of this
  repository) is not among the sources. The spec: "greedy decomposition from
  largest admissible power of two downward; this must match exactly the
  remainder, and fails with InvalidLayout if the remainder is not representable
  exactly, e.g. negative or non-aligned". The argument is an unsigned 64-bit
  size, so the function sees no sign. A filler of padded size \<open>2 ^ k\<close> holds
  \<open>127 * 2 ^ (k - 7)\<close> unpadded bytes, so a remainder is representable when
  it is a multiple of 127 whose padded size fits 64 bits. The instance is used
  on remainders of whole 127-byte units below the sector size only.
\<close>

definition refFillersFromRem :: "u64 \<Rightarrow> err + u64 list" where
  "refFillersFromRem rem =
     (if rem mod 127 \<noteq> 0 \<or> \<not> rem div 127 < 2 ^ 57
      then Inl ''InvalidLayout: remainder not representable''
      else Inr (map (\<lambda>b. 127 * b) (pow2BlocksDown (rem div 127))))"

text \<open>
  Modelled from the spec: \<^verbatim>\<open>RegisteredSealProof.SectorSize\<close> is not in the
  repository; the capacity is "derived from the proof type". The instance knows
  the five sizes of the two generations of proofs.
\<close>

definition refSectorSize :: "i64 \<Rightarrow> err + u64" where
  "refSectorSize p =
     (if p = 0 \<or> p = 5 then Inr (2 ^ 11)
      else if p = 1 \<or> p = 6 then Inr (2 ^ 23)
      else if p = 2 \<or> p = 7 then Inr (2 ^ 29)
      else if p = 3 \<or> p = 8 then Inr (2 ^ 35)
      else if p = 4 \<or> p = 9 then Inr (2 ^ 36)
      else Inl ''unsupported proof type'')"

text \<open>
  Modelled from the spec: the aggregation \<^verbatim>\<open>nonffi.GenerateUnsealedCID\<close> is not
  in the repository; the spec treats it "as a pure function
  \<^verbatim>\<open>Aggregate(proofType, []PieceInfo) -> Commitment\<close>". The instance keeps its
  arguments.
\<close>

definition refGenerateUnsealedCID :: "i64 \<Rightarrow> PieceInfo list \<Rightarrow> err + cid" where
  "refGenerateUnsealedCID proof pieceInfos =
     Inr (UnsealedCid proof (map (\<lambda>i. (Size i, PieceCID i)) pieceInfos))"

text \<open>
  Modelled from the spec: \<^verbatim>\<open>cid.Parse\<close>, \<^verbatim>\<open>address.NewIDAddress\<close>,
  \<^verbatim>\<open>Address.MarshalCBOR\<close>, the chain API and \<^verbatim>\<open>SealCalls.GenerateSDR\<close> are not
  in the repository. In the instance every database statement reaches the
  database, every non-empty string is a CID, the chain head is at height 1000
  with a lookback of 900 epochs, and the encoding succeeds.
\<close>

definition refEnv :: deps where
  "refEnv =
     \<lparr>selectParamsErr = None,
      selectPiecesErr = None,
      execErr = None,
      SectorSize = refSectorSize,
      cid_Parse = (\<lambda>s. if s = [] then Inl ''invalid cid'' else Inr (ParsedCid s)),
      Padded = refPadded,
      Unpadded = refUnpadded,
      GetRequiredPadding = refGetRequiredPadding,
      FillersFromRem = refFillersFromRem,
      ZeroPieceCommitment = ZeroCommitment,
      GenerateUnsealedCID = refGenerateUnsealedCID,
      NewIDAddress = (\<lambda>n. Inr (IDAddress n)),
      MarshalCBOR = (\<lambda>a. case a of IDAddress n \<Rightarrow> Inr [0, ucast n]),
      ChainHead = Inr \<lparr>Height = 1000, Key = ''head''\<rparr>,
      StateGetRandomnessFromTickets = (\<lambda>tag epoch entropy tsk. Inr (entropy @ [ucast epoch])),
      SealRandomnessLookback = 900,
      GenerateSDR = (\<lambda>taskID sref ticket commd. None)\<rparr>"

text \<open>A pipeline row in flight for a task, and a piece row.\<close>

definition pipelineRow :: "i64 \<Rightarrow> i64 \<Rightarrow> i64 \<Rightarrow> TaskID option \<Rightarrow> pipeline_row" where
  "pipelineRow sp num proof task =
     \<lparr>sp_id = sp, sector_number = num, reg_seal_proof = proof, task_id_sdr = task,
      after_sdr = False, ticket_epoch = None, ticket_value = None\<rparr>"

definition pieceRow :: "i64 \<Rightarrow> i64 \<Rightarrow> i64 \<Rightarrow> string \<Rightarrow> i64 \<Rightarrow> i64 option \<Rightarrow> piece_row" where
  "pieceRow sp num idx c sz raw =
     \<lparr>piece_sp_id = sp, piece_sector_number = num, piece_index = idx, piece_cid = c,
      piece_size = sz, data_raw_size = raw\<rparr>"

text \<open>
  Tables for one sector of miner 1000 in flight for task 7, on the 2 KiB proof:
  without pieces; with one piece of 1024 padded bytes whose raw size is its
  unpadded size; the same piece with a raw size of 127 bytes, with a piece index
  of 5, and with a NULL raw size; and a database without any row.
\<close>

definition dbNoPieces :: db where
  "dbNoPieces =
     \<lparr>sectors_sdr_pipeline = [pipelineRow 1000 1 0 (Some 7)],
      sectors_sdr_initial_pieces = []\<rparr>"

definition dbOnePiece :: db where
  "dbOnePiece =
     \<lparr>sectors_sdr_pipeline = [pipelineRow 1000 1 0 (Some 7)],
      sectors_sdr_initial_pieces = [pieceRow 1000 1 0 ''baga'' 1024 (Some 1016)]\<rparr>"

definition dbShortRaw :: db where
  "dbShortRaw =
     \<lparr>sectors_sdr_pipeline = [pipelineRow 1000 1 0 (Some 7)],
      sectors_sdr_initial_pieces = [pieceRow 1000 1 0 ''baga'' 1024 (Some 127)]\<rparr>"

definition dbIndexFive :: db where
  "dbIndexFive =
     \<lparr>sectors_sdr_pipeline = [pipelineRow 1000 1 0 (Some 7)],
      sectors_sdr_initial_pieces = [pieceRow 1000 1 5 ''baga'' 1024 (Some 1016)]\<rparr>"

definition dbNullRaw :: db where
  "dbNullRaw =
     \<lparr>sectors_sdr_pipeline = [pipelineRow 1000 1 0 (Some 7)],
      sectors_sdr_initial_pieces = [pieceRow 1000 1 0 ''baga'' 1024 None]\<rparr>"

definition dbNoRows :: db where
  "dbNoRows = \<lparr>sectors_sdr_pipeline = [], sectors_sdr_initial_pieces = []\<rparr>"

subsection \<open>Contracts of the collaborators\<close>

text \<open>
  What the layout theorems ask of the size conversions, of the alignment
  padding and of the trailing fillers. Sums are sums of natural numbers, so
  that they cannot wrap.
\<close>

definition sizeConversions :: "deps \<Rightarrow> bool" where
  "sizeConversions env \<longleftrightarrow>
     (\<forall>s. Padded env s = s + s div 127) \<and> (\<forall>s. Unpadded env s = s - s div 128)"

definition paddingAligns :: "deps \<Rightarrow> bool" where
  "paddingAligns env \<longleftrightarrow>
     (\<forall>old new pads padLength.
        GetRequiredPadding env old new = (pads, padLength) \<longrightarrow>
          sum_list (map unat pads) = unat padLength \<and>
          (\<forall>k. k < 64 \<and> new = 2 ^ k \<longrightarrow>
             unat padLength < 2 ^ k \<and> 2 ^ k dvd unat old + unat padLength))"

definition fillersExact :: "deps \<Rightarrow> bool" where
  "fillersExact env \<longleftrightarrow>
     (\<forall>rem q. unat rem = 127 * q \<and> q < 2 ^ 57 \<longrightarrow>
        (\<exists>fillerSize. FillersFromRem env rem = Inr fillerSize \<and>
           sum_list (map (\<lambda>fil. unat (Padded env fil)) fillerSize) = 128 * q))"

text \<open>
  Where a sequence of padded piece sizes ends when each piece is placed at the
  next multiple of its own size, from position \<open>pos\<close> on, in padded bytes.
\<close>

fun layoutEnd :: "nat \<Rightarrow> nat list \<Rightarrow> nat" where
  "layoutEnd pos [] = pos"
| "layoutEnd pos (s # ss) = layoutEnd ((pos + s - 1) div s * s + s) ss"

text \<open>The total padded length of a piece-info sequence.\<close>

definition totalPadded :: "PieceInfo list \<Rightarrow> nat" where
  "totalPadded pieceInfos = sum_list (map (\<lambda>i. unat (Size i)) pieceInfos)"

text \<open>A piece whose raw size is the unpadded form of its padded size, a power of two of at least 128.\<close>

definition wholePiece :: "deps \<Rightarrow> piece \<Rightarrow> bool" where
  "wholePiece env p \<longleftrightarrow>
     (\<exists>c. cid_Parse env (PieceCIDStr p) = Inr c) \<and>
     (\<exists>k. 7 \<le> k \<and> k < 64 \<and> PieceSize p = 2 ^ k) \<and>
     DataRawSize p = Some (Unpadded env (PieceSize p))"

text \<open>The errors of the last stage, the update that stores the success.\<close>

fun storeError :: "do_error \<Rightarrow> bool" where
  "storeError (UpdatingPipeline e) = True"
| "storeError (UpdatedRows n) = True"
| "storeError e = False"

text \<open>What the commitment computation reads of a piece: everything but its index.\<close>

definition withoutIndex :: "piece \<Rightarrow> string \<times> i64 \<times> i64 option" where
  "withoutIndex p = (PieceCIDStr p, PieceSize p, DataRawSize p)"

text \<open>The calls of one kind, in a list of calls.\<close>

fun isExecUpdateCall :: "event \<Rightarrow> bool" where
  "isExecUpdateCall (ExecUpdateCall sp num epoch ticket n) = True"
| "isExecUpdateCall ev = False"

fun isGenerateUnsealedCIDCall :: "event \<Rightarrow> bool" where
  "isGenerateUnsealedCIDCall (GenerateUnsealedCIDCall proof pieceInfos) = True"
| "isGenerateUnsealedCIDCall ev = False"

fun sdrCommitments :: "event list \<Rightarrow> cid list" where
  "sdrCommitments [] = []"
| "sdrCommitments (GenerateSDRCall taskID sref ticket commd # evs) = commd # sdrCommitments evs"
| "sdrCommitments (ev # evs) = sdrCommitments evs"

section \<open>Admission\<close>

text \<open>
  Claim C9, as amended. Given a non-empty candidate list, \<^verbatim>\<open>CanAccept\<close> returns
  exactly one identifier with a nil error: the first of the list, which is a
  member of it. (The engine is not consulted; the empty list is outside the
  function's domain.)
\<close>

theorem CanAccept_first:
  "ids \<noteq> [] \<Longrightarrow>
     CanAccept ids engine = Returns (Some (ids ! 0), None) \<and> ids ! 0 \<in> set ids"
  by (cases ids) (simp_all add: CanAccept_def)

theorem CanAccept_first_witness:
  "[4, 9, 2] \<noteq> ([] :: TaskID list) \<and>
   CanAccept [4, 9, 2] () = Returns (Some 4, None) \<and> (4 :: TaskID) \<in> set [4, 9, 2]"
  using CanAccept_first [of "[4, 9, 2]" "()"] by simp

text \<open>
  Claim C9 as stated fails on the empty list: \<^verbatim>\<open>ids[0]\<close> panics with an index
  out of range, where the claim has "no selection" returned.
\<close>

theorem CanAccept_empty_panics: "CanAccept [] () = Panics IndexOutOfRange"
  by (simp add: CanAccept_def)

section \<open>Ownership\<close>

text \<open>
  Claim C8, as amended. \<^verbatim>\<open>Do\<close> never consults the ownership check: its result,
  the database it leaves and the calls it makes are the same whatever the
  callback would answer.
\<close>

theorem Do_ignores_stillOwned:
  "Do env taskID stillOwned d = Do env taskID stillOwned' d"
  by (simp add: Do_def)

theorem Do_ignores_stillOwned_witness:
  "Do refEnv 7 (\<lambda>_. False) dbOnePiece = Do refEnv 7 (\<lambda>_. True) dbOnePiece"
  by (rule Do_ignores_stillOwned)

text \<open>
  Claim C8 as stated fails: with a callback that reports ownership lost, the
  attempt on a one-piece sector still calls the encoding procedure, performs the
  final update and returns success.
\<close>

theorem Do_ownership_lost_counterexample:
  "fst (Do refEnv 7 (\<lambda>_. False) dbOnePiece) = Returns (True, None) \<and>
   sectors_sdr_pipeline (fst (snd (Do refEnv 7 (\<lambda>_. False) dbOnePiece))) =
     [\<lparr>sp_id = 1000, sector_number = 1, reg_seal_proof = 0, task_id_sdr = None,
       after_sdr = True, ticket_epoch = Some 100, ticket_value = Some [0, 232, 100]\<rparr>] \<and>
   snd (snd (Do refEnv 7 (\<lambda>_. False) dbOnePiece)) =
     [GenerateUnsealedCIDCall 0
        [\<lparr>Size = 1024, PieceCID = ParsedCid ''baga''\<rparr>,
         \<lparr>Size = 1024, PieceCID = ZeroCommitment 1016\<rparr>],
      ChainHeadCall,
      RandomnessCall SealRandomness 100 [0, 232] ''head'',
      GenerateSDRCall 7 \<lparr>Miner = 1000, Number = 1, ProofType = 0\<rparr> [0, 232, 100]
        (UnsealedCid 0 [(1024, ParsedCid ''baga''), (1024, ZeroCommitment 1016)]),
      ExecUpdateCall 1000 1 100 [0, 232, 100] 1]"
  by code_simp

section \<open>Case rules for the stages of Do\<close>

lemma sdrCommitments_append:
  "sdrCommitments (xs @ ys) = sdrCommitments xs @ sdrCommitments ys"
  by (induction xs rule: sdrCommitments.induct) simp_all

lemma sdrAndStore_cases:
  obtains (encoding) e where
      "sdrAndStore env taskID d sp sref ticket epoch commd =
         (Returns (False, Some (GeneratingSdr e)), d, [GenerateSDRCall taskID sref ticket commd])"
  | (update) e where
      "sdrAndStore env taskID d sp sref ticket epoch commd =
         (Returns (False, Some (UpdatingPipeline e)), d, [GenerateSDRCall taskID sref ticket commd])"
  | (rows) n d' where "n \<noteq> 1"
      "execUpdate env d (SpID sp) (SectorNumber sp) epoch ticket = (Inr n, d')"
      "sdrAndStore env taskID d sp sref ticket epoch commd =
         (Returns (False, Some (UpdatedRows n)), d',
          [GenerateSDRCall taskID sref ticket commd,
           ExecUpdateCall (SpID sp) (SectorNumber sp) epoch ticket n])"
  | (stored) d' where
      "execUpdate env d (SpID sp) (SectorNumber sp) epoch ticket = (Inr 1, d')"
      "sdrAndStore env taskID d sp sref ticket epoch commd =
         (Returns (True, None), d',
          [GenerateSDRCall taskID sref ticket commd,
           ExecUpdateCall (SpID sp) (SectorNumber sp) epoch ticket 1])"
proof (cases "GenerateSDR env taskID sref ticket commd")
  case (Some e)
  then show ?thesis using encoding by (simp add: sdrAndStore_def)
next
  case None
  obtain r d' where ex: "execUpdate env d (SpID sp) (SectorNumber sp) epoch ticket = (r, d')"
    by (cases "execUpdate env d (SpID sp) (SectorNumber sp) epoch ticket")
  show ?thesis
  proof (cases r)
    case (Inl e)
    with ex have "d' = d" by (auto simp: execUpdate_def split: option.splits)
    with None ex Inl show ?thesis using update by (simp add: sdrAndStore_def)
  next
    case (Inr n)
    with None ex show ?thesis using rows [of n d'] stored [of d']
      by (cases "n = 1") (simp_all add: sdrAndStore_def)
  qed
qed

lemma getTicket_log:
  "\<not> list_ex isExecUpdateCall (snd (getTicket env maddr))"
  "\<not> list_ex isGenerateUnsealedCIDCall (snd (getTicket env maddr))"
  "sdrCommitments (snd (getTicket env maddr)) = []"
  by (auto simp: getTicket_def Let_def split: sum.splits)

lemma ticketAndSeal_cases:
  obtains (address) e where
      "ticketAndSeal env taskID d sp commd = (Returns (False, Some (GettingMinerAddress e)), d, [])"
  | (ticket) maddr e evs where "getTicket env maddr = (Inl e, evs)"
      "ticketAndSeal env taskID d sp commd = (Returns (False, Some (GettingTicket e)), d, evs)"
  | (seal) maddr ticket epoch evs r d' evs' where
      "getTicket env maddr = (Inr (ticket, epoch), evs)"
      "sdrAndStore env taskID d sp
         \<lparr>Miner = SpID sp, Number = SectorNumber sp, ProofType = RegSealProof sp\<rparr>
         ticket epoch commd = (r, d', evs')"
      "ticketAndSeal env taskID d sp commd = (r, d', evs @ evs')"
proof (cases "NewIDAddress env (SpID sp)")
  case (Inl e)
  then show ?thesis using address by (simp add: ticketAndSeal_def)
next
  case (Inr maddr)
  obtain t evs where gt: "getTicket env maddr = (t, evs)" by (cases "getTicket env maddr")
  show ?thesis
  proof (cases t)
    case (Inl e)
    with Inr gt show ?thesis using ticket [of maddr e evs] by (simp add: ticketAndSeal_def)
  next
    case te: (Inr res)
    obtain tk epoch where res: "res = (tk, epoch)" by (cases res)
    obtain r d' evs' where ss:
      "sdrAndStore env taskID d sp
         \<lparr>Miner = SpID sp, Number = SectorNumber sp, ProofType = RegSealProof sp\<rparr>
         tk epoch commd = (r, d', evs')"
      by (cases "sdrAndStore env taskID d sp
         \<lparr>Miner = SpID sp, Number = SectorNumber sp, ProofType = RegSealProof sp\<rparr>
         tk epoch commd")
    with Inr gt te res show ?thesis using seal [of maddr tk epoch evs r d' evs']
      by (simp add: ticketAndSeal_def)
  qed
qed

lemma piecesLoop_Fail:
  "piecesLoop env ps offset infos = Fail e \<Longrightarrow> \<exists>x. e = ParsingPieceCid x"
  by (induction ps arbitrary: offset infos)
     (auto split: sum.splits prod.splits option.splits)

lemma computeCommD_cases:
  obtains (failed) e where "computeCommD env pt ssize ps = (Fail e, [])" "\<not> storeError e"
  | (rejected) e pieceInfos where "ps \<noteq> []"
      "computeCommD env pt ssize ps =
         (Fail (ComputingCommD e), [GenerateUnsealedCIDCall pt pieceInfos])"
  | (crashed) pn where "ps \<noteq> []" "piecesLoop env ps 0 [] = Crash pn"
      "computeCommD env pt ssize ps = (Crash pn, [])"
  | (aggregated) commd pieceInfos where "ps \<noteq> []"
      "computeCommD env pt ssize ps = (Next commd, [GenerateUnsealedCIDCall pt pieceInfos])"
  | (empty) "ps = []"
      "computeCommD env pt ssize ps = (Next (ZeroPieceCommitment env (Unpadded env ssize)), [])"
proof (cases "ps = []")
  case True
  then show ?thesis using empty by (simp add: computeCommD_def)
next
  case False
  show ?thesis
  proof (cases "buildPieceInfos env ssize ps")
    case (Next pieceInfos)
    with False show ?thesis using rejected aggregated
      by (cases "GenerateUnsealedCID env pt pieceInfos") (simp_all add: computeCommD_def)
  next
    case (Fail e)
    then have "\<not> storeError e"
      by (auto simp: buildPieceInfos_def split: step.splits sum.splits prod.splits
            dest: piecesLoop_Fail)
    with False Fail show ?thesis using failed by (simp add: computeCommD_def)
  next
    case (Crash pn)
    then have "piecesLoop env ps 0 [] = Crash pn"
      by (auto simp: buildPieceInfos_def split: step.splits sum.splits prod.splits)
    with False Crash show ?thesis using crashed by (simp add: computeCommD_def)
  qed
qed

lemma Do_loaded:
  assumes "selectSectorParams env d taskID = Inr [sp]"
    and "selectPieces env d (SpID sp) (SectorNumber sp) = Inr ps"
    and "SectorSize env (RegSealProof sp) = Inr ssize"
  shows "Do env taskID so d =
     (case computeCommD env (RegSealProof sp) ssize ps of
        (Fail e, evs) \<Rightarrow> (Returns (False, Some e), d, evs)
      | (Crash p, evs) \<Rightarrow> (Panics p, d, evs)
      | (Next commd, evs) \<Rightarrow>
          (case ticketAndSeal env taskID d sp commd of (r, d', evs') \<Rightarrow> (r, d', evs @ evs')))"
  using assms by (simp add: Do_def)

lemma Do_cases:
  obtains (early) e where "Do env taskID so d = (Returns (False, Some e), d, [])" "\<not> storeError e"
  | (loaded) sp ps ssize where "selectSectorParams env d taskID = Inr [sp]"
      "selectPieces env d (SpID sp) (SectorNumber sp) = Inr ps"
      "SectorSize env (RegSealProof sp) = Inr ssize"
proof (cases "selectSectorParams env d taskID")
  case (Inl e)
  then show ?thesis using early by (simp add: Do_def)
next
  case (Inr arr)
  show ?thesis
  proof (cases "length arr = 1")
    case False
    with Inr show ?thesis using early by (simp add: Do_def)
  next
    case True
    then obtain sp where arr: "arr = [sp]" by (cases arr) auto
    show ?thesis
    proof (cases "selectPieces env d (SpID sp) (SectorNumber sp)")
      case (Inl e)
      with Inr arr show ?thesis using early by (simp add: Do_def)
    next
      case ps: (Inr ps)
      show ?thesis
      proof (cases "SectorSize env (RegSealProof sp)")
        case (Inl e)
        with Inr arr ps show ?thesis using early by (simp add: Do_def)
      next
        case ss: (Inr ssize)
        from Inr arr ps ss show ?thesis using loaded by simp
      qed
    qed
  qed
qed

lemma computeCommD_log:
  "\<not> list_ex isExecUpdateCall (snd (computeCommD env pt ssize ps))"
  "sdrCommitments (snd (computeCommD env pt ssize ps)) = []"
  by (cases rule: computeCommD_cases [of env pt ssize ps]; simp)+

lemma sdrAndStore_log:
  "\<not> list_ex isGenerateUnsealedCIDCall (snd (snd (sdrAndStore env taskID d sp sref ticket epoch commd)))"
  "sdrCommitments (snd (snd (sdrAndStore env taskID d sp sref ticket epoch commd))) = [commd]"
  by (cases rule: sdrAndStore_cases [of env taskID d sp sref ticket epoch commd]; simp)+

lemma ticketAndSeal_log:
  "\<not> list_ex isGenerateUnsealedCIDCall (snd (snd (ticketAndSeal env taskID d sp commd)))"
  "set (sdrCommitments (snd (snd (ticketAndSeal env taskID d sp commd)))) \<subseteq> {commd}"
proof -
  show "\<not> list_ex isGenerateUnsealedCIDCall (snd (snd (ticketAndSeal env taskID d sp commd)))"
  proof (cases rule: ticketAndSeal_cases [of env taskID d sp commd])
    case (address e)
    then show ?thesis by simp
  next
    case (ticket maddr e evs)
    with getTicket_log(2) [of env maddr] show ?thesis by simp
  next
    case (seal maddr ticket epoch evs r d' evs')
    with getTicket_log(2) [of env maddr]
      sdrAndStore_log(1) [of env taskID d sp
        "\<lparr>Miner = SpID sp, Number = SectorNumber sp, ProofType = RegSealProof sp\<rparr>"
        ticket epoch commd]
    show ?thesis by simp
  qed
  show "set (sdrCommitments (snd (snd (ticketAndSeal env taskID d sp commd)))) \<subseteq> {commd}"
  proof (cases rule: ticketAndSeal_cases [of env taskID d sp commd])
    case (address e)
    then show ?thesis by simp
  next
    case (ticket maddr e evs)
    with getTicket_log(3) [of env maddr] show ?thesis by simp
  next
    case (seal maddr ticket epoch evs r d' evs')
    with getTicket_log(3) [of env maddr]
      sdrAndStore_log(2) [of env taskID d sp
        "\<lparr>Miner = SpID sp, Number = SectorNumber sp, ProofType = RegSealProof sp\<rparr>"
        ticket epoch commd]
    show ?thesis by (simp add: sdrCommitments_append)
  qed
qed

text \<open>
  Claim C2. For an empty piece sequence the commitment is the zero-piece
  commitment of the sector's unpadded capacity, and the aggregation function is
  not invoked: the computation makes no call, it is the same whatever function
  stands for the aggregation, and in a run of \<^verbatim>\<open>Do\<close> that loads no piece no call
  of the aggregation is made and the only commitment handed to the encoding is
  the zero-piece commitment.
\<close>

theorem empty_pieces_zero_commitment:
  "computeCommD env proof ssize [] = (Next (ZeroPieceCommitment env (Unpadded env ssize)), []) \<and>
   computeCommD (env\<lparr>GenerateUnsealedCID := aggregate\<rparr>) proof ssize [] =
     computeCommD env proof ssize [] \<and>
   (selectSectorParams env d taskID = Inr [sp] \<and>
    selectPieces env d (SpID sp) (SectorNumber sp) = Inr [] \<and>
    SectorSize env (RegSealProof sp) = Inr ssize \<longrightarrow>
      \<not> list_ex isGenerateUnsealedCIDCall (snd (snd (Do env taskID stillOwned d))) \<and>
      set (sdrCommitments (snd (snd (Do env taskID stillOwned d))))
        \<subseteq> {ZeroPieceCommitment env (Unpadded env ssize)})"
proof (intro conjI impI)
  show "computeCommD env proof ssize [] = (Next (ZeroPieceCommitment env (Unpadded env ssize)), [])"
    by (simp add: computeCommD_def)
  show "computeCommD (env\<lparr>GenerateUnsealedCID := aggregate\<rparr>) proof ssize [] =
     computeCommD env proof ssize []"
    by (simp add: computeCommD_def)
next
  assume loaded: "selectSectorParams env d taskID = Inr [sp] \<and>
    selectPieces env d (SpID sp) (SectorNumber sp) = Inr [] \<and>
    SectorSize env (RegSealProof sp) = Inr ssize"
  let ?z = "ZeroPieceCommitment env (Unpadded env ssize)"
  from loaded have "Do env taskID stillOwned d =
      (case ticketAndSeal env taskID d sp ?z of (r, d', evs') \<Rightarrow> (r, d', evs'))"
    by (simp add: Do_loaded computeCommD_def)
  then have log: "snd (snd (Do env taskID stillOwned d)) = snd (snd (ticketAndSeal env taskID d sp ?z))"
    by (simp split: prod.splits)
  show "\<not> list_ex isGenerateUnsealedCIDCall (snd (snd (Do env taskID stillOwned d)))"
    unfolding log by (rule ticketAndSeal_log)
  show "set (sdrCommitments (snd (snd (Do env taskID stillOwned d)))) \<subseteq> {?z}"
    unfolding log by (rule ticketAndSeal_log)
qed

text \<open>
  The run on the sector without pieces.
\<close>

theorem empty_pieces_zero_commitment_witness:
  "\<not> list_ex isGenerateUnsealedCIDCall (snd (snd (Do refEnv 7 (\<lambda>_. True) dbNoPieces))) \<and>
   sdrCommitments (snd (snd (Do refEnv 7 (\<lambda>_. True) dbNoPieces))) = [ZeroCommitment 2032]"
proof -
  let ?sp = "\<lparr>SpID = 1000, SectorNumber = 1, RegSealProof = 0\<rparr>"
  have h: "selectSectorParams refEnv dbNoPieces 7 = Inr [?sp] \<and>
    selectPieces refEnv dbNoPieces (SpID ?sp) (SectorNumber ?sp) = Inr [] \<and>
    SectorSize refEnv (RegSealProof ?sp) = Inr 2048"
    by code_simp
  have c: "sdrCommitments (snd (snd (Do refEnv 7 (\<lambda>_. True) dbNoPieces))) = [ZeroCommitment 2032]"
    by code_simp
  from empty_pieces_zero_commitment [of refEnv 0 2048 undefined dbNoPieces 7 ?sp "\<lambda>_. True"] h c
  show ?thesis by simp
qed

text \<open>
  Claim C5. With a chain head \<open>ts\<close> and the owner's address encoded as
  \<open>buf\<close>, \<^verbatim>\<open>getTicket\<close> asks the chain head once and then requests randomness
  once, with the tag SealRandomness, at the epoch \<open>Height ts\<close> minus the
  lookback, with entropy \<open>buf\<close> and the head's key; it returns a ticket and
  an epoch exactly when that request returns the ticket, and the epoch is that
  difference. For a height and a lookback that are not negative the 64-bit
  difference is the difference of the integers.
\<close>

theorem getTicket_epoch_and_request:
  "ChainHead env = Inr ts \<Longrightarrow> MarshalCBOR env maddr = Inr buf \<Longrightarrow>
     snd (getTicket env maddr) =
       [ChainHeadCall,
        RandomnessCall SealRandomness (Height ts - SealRandomnessLookback env) buf (Key ts)] \<and>
     (fst (getTicket env maddr) = Inr (rand, epoch) \<longleftrightarrow>
        epoch = Height ts - SealRandomnessLookback env \<and>
        StateGetRandomnessFromTickets env SealRandomness
          (Height ts - SealRandomnessLookback env) buf (Key ts) = Inr rand) \<and>
     (0 \<le> sint (Height ts) \<and> 0 \<le> sint (SealRandomnessLookback env) \<longrightarrow>
        sint (Height ts - SealRandomnessLookback env) =
          sint (Height ts) - sint (SealRandomnessLookback env))"
proof (intro conjI impI)
  assume head: "ChainHead env = Inr ts" and cbor: "MarshalCBOR env maddr = Inr buf"
  show "snd (getTicket env maddr) =
       [ChainHeadCall,
        RandomnessCall SealRandomness (Height ts - SealRandomnessLookback env) buf (Key ts)]"
    using head cbor by (simp add: getTicket_def Let_def split: sum.splits)
  show "fst (getTicket env maddr) = Inr (rand, epoch) \<longleftrightarrow>
        epoch = Height ts - SealRandomnessLookback env \<and>
        StateGetRandomnessFromTickets env SealRandomness
          (Height ts - SealRandomnessLookback env) buf (Key ts) = Inr rand"
    using head cbor by (auto simp: getTicket_def Let_def split: sum.splits)
next
  assume nonneg: "0 \<le> sint (Height ts) \<and> 0 \<le> sint (SealRandomnessLookback env)"
  let ?h = "Height ts" and ?l = "SealRandomnessLookback env"
  have "sint ?h < 2 ^ 63" "sint ?l < 2 ^ 63"
    using sint_lt [of ?h] sint_lt [of ?l] by simp_all
  with nonneg have "- (2 ^ 63) \<le> sint ?h - sint ?l" "sint ?h - sint ?l < 2 ^ 63"
    by simp_all
  then have "signed_take_bit 63 (sint ?h - sint ?l) = sint ?h - sint ?l"
    by (simp add: signed_take_bit_int_eq_self)
  then show "sint (?h - ?l) = sint ?h - sint ?l"
    by (simp add: sint_word_ariths)
qed

text \<open>
  The head at height 1000 with a lookback of 900.
\<close>

theorem getTicket_epoch_and_request_witness:
  "getTicket refEnv (IDAddress 1000) =
     (Inr ([0, 232, 100], 100),
      [ChainHeadCall, RandomnessCall SealRandomness 100 [0, 232] ''head'']) \<and>
   sint (1000 - 900 :: i64) = 1000 - 900"
proof -
  let ?ts = "\<lparr>Height = 1000, Key = ''head''\<rparr>"
  have head: "ChainHead refEnv = Inr ?ts" by (simp add: refEnv_def)
  have cbor: "MarshalCBOR refEnv (IDAddress 1000) = Inr [0, 232]" by code_simp
  have rnd: "StateGetRandomnessFromTickets refEnv SealRandomness
      (Height ?ts - SealRandomnessLookback refEnv) [0, 232] (Key ?ts) = Inr [0, 232, 100]"
    by code_simp
  have lb: "SealRandomnessLookback refEnv = 900" by (simp add: refEnv_def)
  from getTicket_epoch_and_request [OF head cbor, of "[0, 232, 100]" 100] rnd lb
  show ?thesis by (simp add: prod_eq_iff)
qed

text \<open>
  Claim C6. When the select reaches the database and the number of pipeline
  rows bound to the task is not one, \<^verbatim>\<open>Do\<close> returns the error that counts
  them and does nothing else. In the last stage of \<^verbatim>\<open>Do\<close>, on any table, when
  the encoding has succeeded and the update reaches the database, the result is
  success if the update changed exactly one row, and otherwise (no row, or
  several) the error that carries the number of rows it changed.
\<close>

theorem Do_row_cardinality:
  "(selectParamsErr env = None \<and>
    length (filter (\<lambda>r. task_id_sdr r = Some taskID) (sectors_sdr_pipeline d)) \<noteq> 1 \<longrightarrow>
      Do env taskID stillOwned d =
        (Returns (False, Some (ExpectedOneSectorParams
           (length (filter (\<lambda>r. task_id_sdr r = Some taskID) (sectors_sdr_pipeline d))))),
         d, [])) \<and>
   (GenerateSDR env taskID sref ticket commd = None \<and> execErr env = None \<longrightarrow>
      fst (sdrAndStore env taskID d' sp sref ticket epoch commd) =
        (if length (filter (\<lambda>r. sp_id r = SpID sp \<and> sector_number r = SectorNumber sp)
                      (sectors_sdr_pipeline d')) = 1
         then Returns (True, None)
         else Returns (False, Some (UpdatedRows
                (int (length (filter (\<lambda>r. sp_id r = SpID sp \<and> sector_number r = SectorNumber sp)
                                (sectors_sdr_pipeline d'))))))))"
proof (intro conjI impI)
  assume "selectParamsErr env = None \<and>
    length (filter (\<lambda>r. task_id_sdr r = Some taskID) (sectors_sdr_pipeline d)) \<noteq> 1"
  then show "Do env taskID stillOwned d =
        (Returns (False, Some (ExpectedOneSectorParams
           (length (filter (\<lambda>r. task_id_sdr r = Some taskID) (sectors_sdr_pipeline d))))),
         d, [])"
    by (simp add: Do_def selectSectorParams_def)
next
  assume "GenerateSDR env taskID sref ticket commd = None \<and> execErr env = None"
  then show "fst (sdrAndStore env taskID d' sp sref ticket epoch commd) =
        (if length (filter (\<lambda>r. sp_id r = SpID sp \<and> sector_number r = SectorNumber sp)
                      (sectors_sdr_pipeline d')) = 1
         then Returns (True, None)
         else Returns (False, Some (UpdatedRows
                (int (length (filter (\<lambda>r. sp_id r = SpID sp \<and> sector_number r = SectorNumber sp)
                                (sectors_sdr_pipeline d')))))))"
    by (simp add: sdrAndStore_def execUpdate_def)
qed

text \<open>
  No row is bound to task 8; the update finds no row in a database without
  rows, and one row in the database of the sector without pieces.
\<close>

theorem Do_row_cardinality_witness:
  "Do refEnv 8 (\<lambda>_. True) dbOnePiece =
     (Returns (False, Some (ExpectedOneSectorParams 0)), dbOnePiece, []) \<and>
   fst (sdrAndStore refEnv 7 dbNoRows \<lparr>SpID = 1000, SectorNumber = 1, RegSealProof = 0\<rparr>
          \<lparr>Miner = 1000, Number = 1, ProofType = 0\<rparr> [0, 232, 100] 100 (ZeroCommitment 2032)) =
     Returns (False, Some (UpdatedRows 0)) \<and>
   fst (sdrAndStore refEnv 7 dbNoPieces \<lparr>SpID = 1000, SectorNumber = 1, RegSealProof = 0\<rparr>
          \<lparr>Miner = 1000, Number = 1, ProofType = 0\<rparr> [0, 232, 100] 100 (ZeroCommitment 2032)) =
     Returns (True, None)"
proof -
  let ?sp = "\<lparr>SpID = 1000, SectorNumber = 1, RegSealProof = 0\<rparr>"
  let ?sref = "\<lparr>Miner = 1000, Number = 1, ProofType = 0\<rparr>"
  have none: "selectParamsErr refEnv = None" by (simp add: refEnv_def)
  have zero: "length (filter (\<lambda>r. task_id_sdr r = Some 8) (sectors_sdr_pipeline dbOnePiece)) = 0"
    by code_simp
  have run: "GenerateSDR refEnv 7 ?sref [0, 232, 100] (ZeroCommitment 2032) = None \<and>
      execErr refEnv = None"
    by (simp add: refEnv_def)
  have gone: "length (filter (\<lambda>r. sp_id r = SpID ?sp \<and> sector_number r = SectorNumber ?sp)
      (sectors_sdr_pipeline dbNoRows)) = 0"
    by (simp add: dbNoRows_def)
  have one: "length (filter (\<lambda>r. sp_id r = SpID ?sp \<and> sector_number r = SectorNumber ?sp)
      (sectors_sdr_pipeline dbNoPieces)) = 1"
    by (simp add: dbNoPieces_def pipelineRow_def)
  from Do_row_cardinality [where env = refEnv and taskID = 8 and d = dbOnePiece
      and stillOwned = "\<lambda>_. True"] none zero
  have a: "Do refEnv 8 (\<lambda>_. True) dbOnePiece =
     (Returns (False, Some (ExpectedOneSectorParams 0)), dbOnePiece, [])"
    by simp
  from Do_row_cardinality [where env = refEnv and taskID = 7 and sref = ?sref
      and ticket = "[0, 232, 100]" and commd = "ZeroCommitment 2032" and d' = dbNoRows
      and sp = ?sp and epoch = 100] run gone
  have b: "fst (sdrAndStore refEnv 7 dbNoRows ?sp ?sref [0, 232, 100] 100 (ZeroCommitment 2032)) =
     Returns (False, Some (UpdatedRows 0))"
    by simp
  from Do_row_cardinality [where env = refEnv and taskID = 7 and sref = ?sref
      and ticket = "[0, 232, 100]" and commd = "ZeroCommitment 2032" and d' = dbNoPieces
      and sp = ?sp and epoch = 100] run one
  have c: "fst (sdrAndStore refEnv 7 dbNoPieces ?sp ?sref [0, 232, 100] 100 (ZeroCommitment 2032)) =
     Returns (True, None)"
    by simp
  from a b c show ?thesis by simp
qed

lemma sdrAndStore_unchanged:
  assumes "sdrAndStore env taskID d sp sref ticket epoch commd = (Returns (False, Some e), d', evs)"
    and "\<not> storeError e"
  shows "d' = d \<and> \<not> list_ex isExecUpdateCall evs"
  using assms
  by (cases rule: sdrAndStore_cases [of env taskID d sp sref ticket epoch commd]) auto

lemma ticketAndSeal_unchanged:
  assumes "ticketAndSeal env taskID d sp commd = (Returns (False, Some e), d', evs)"
    and "\<not> storeError e"
  shows "d' = d \<and> \<not> list_ex isExecUpdateCall evs"
proof (cases rule: ticketAndSeal_cases [of env taskID d sp commd])
  case (address x)
  with assms show ?thesis by simp
next
  case (ticket maddr x evs0)
  with assms getTicket_log(1) [of env maddr] show ?thesis by auto
next
  case (seal maddr ticket epoch evs0 r d0 evs1)
  with assms have "sdrAndStore env taskID d sp
      \<lparr>Miner = SpID sp, Number = SectorNumber sp, ProofType = RegSealProof sp\<rparr>
      ticket epoch commd = (Returns (False, Some e), d', evs1)" and evs: "evs = evs0 @ evs1"
    by simp_all
  from sdrAndStore_unchanged [OF this(1) assms(2)] evs seal(1) getTicket_log(1) [of env maddr]
  show ?thesis by simp
qed

text \<open>
  Claim C7. When \<^verbatim>\<open>Do\<close> returns an error that is not one of the two errors
  of the final update (so an error of the record load, the piece load, the
  sector size, the commitment computation, the address, the ticket or the
  encoding), the database is the one it started with and no update was
  executed.
\<close>

theorem Do_error_before_store_writes_nothing:
  assumes "Do env taskID stillOwned d = (Returns (False, Some e), d', evs)"
    and "\<not> storeError e"
  shows "d' = d \<and> \<not> list_ex isExecUpdateCall evs"
proof (cases rule: Do_cases [of env taskID stillOwned d])
  case (early x)
  with assms show ?thesis by simp
next
  case (loaded sp ps ssize)
  note unfold = Do_loaded [OF loaded, of stillOwned]
  show ?thesis
  proof (cases rule: computeCommD_cases [of env "RegSealProof sp" ssize ps])
    case (failed x)
    with assms unfold show ?thesis by simp
  next
    case (rejected x pieceInfos)
    with assms unfold show ?thesis by auto
  next
    case (crashed pn)
    with assms unfold show ?thesis by simp
  next
    case (aggregated commd pieceInfos)
    obtain r d0 evs0 where ts: "ticketAndSeal env taskID d sp commd = (r, d0, evs0)"
      by (cases "ticketAndSeal env taskID d sp commd")
    with assms unfold aggregated
    have "r = Returns (False, Some e)" "d0 = d'"
      "evs = [GenerateUnsealedCIDCall (RegSealProof sp) pieceInfos] @ evs0"
      by simp_all
    with ticketAndSeal_unchanged [of env taskID d sp commd e d' evs0] ts assms(2)
    show ?thesis by simp
  next
    case empty
    obtain r d0 evs0 where ts: "ticketAndSeal env taskID d sp
        (ZeroPieceCommitment env (Unpadded env ssize)) = (r, d0, evs0)"
      by (cases "ticketAndSeal env taskID d sp (ZeroPieceCommitment env (Unpadded env ssize))")
    with assms unfold empty
    have "r = Returns (False, Some e)" "d0 = d'" "evs = evs0"
      by simp_all
    with ticketAndSeal_unchanged [of env taskID d sp _ e d' evs0] ts assms(2)
    show ?thesis by simp
  qed
qed

text \<open>
  An attempt whose encoding fails.
\<close>

theorem Do_error_before_store_writes_nothing_witness:
  "fst (Do (refEnv\<lparr>GenerateSDR := \<lambda>taskID sref ticket commd. Some ''no space''\<rparr>) 7
          (\<lambda>_. True) dbOnePiece) = Returns (False, Some (GeneratingSdr ''no space'')) \<and>
   fst (snd (Do (refEnv\<lparr>GenerateSDR := \<lambda>taskID sref ticket commd. Some ''no space''\<rparr>) 7
          (\<lambda>_. True) dbOnePiece)) = dbOnePiece \<and>
   \<not> list_ex isExecUpdateCall
       (snd (snd (Do (refEnv\<lparr>GenerateSDR := \<lambda>taskID sref ticket commd. Some ''no space''\<rparr>) 7
          (\<lambda>_. True) dbOnePiece)))"
proof -
  let ?run = "Do (refEnv\<lparr>GenerateSDR := \<lambda>taskID sref ticket commd. Some ''no space''\<rparr>) 7
          (\<lambda>_. True) dbOnePiece"
  have r: "fst ?run = Returns (False, Some (GeneratingSdr ''no space''))"
    by code_simp
  then have run: "?run = (Returns (False, Some (GeneratingSdr ''no space'')), fst (snd ?run), snd (snd ?run))"
    by (simp add: prod_eq_iff)
  have "\<not> storeError (GeneratingSdr ''no space'')" by simp
  from Do_error_before_store_writes_nothing [OF run this] r show ?thesis by simp
qed

section \<open>The nil dereference and the piece indices\<close>

lemma piecesLoop_null:
  "\<forall>p \<in> set ps. \<exists>c. cid_Parse env (PieceCIDStr p) = Inr c \<Longrightarrow>
   \<exists>p \<in> set ps. DataRawSize p = None \<Longrightarrow>
     piecesLoop env ps offset infos = Crash NilPointerDereference"
proof (induction ps arbitrary: offset infos)
  case Nil
  then show ?case by simp
next
  case (Cons p ps)
  from Cons.prems(1) obtain c where c: "cid_Parse env (PieceCIDStr p) = Inr c" by auto
  obtain pads padLength where
    g: "GetRequiredPadding env (Padded env offset) (PieceSize p) = (pads, padLength)"
    by (cases "GetRequiredPadding env (Padded env offset) (PieceSize p)")
  show ?case
  proof (cases "DataRawSize p")
    case None
    with c g show ?thesis by simp
  next
    case (Some raw)
    with Cons.prems have "\<exists>q \<in> set ps. DataRawSize q = None" by auto
    with Cons.IH Cons.prems(1) c g Some show ?thesis by simp
  qed
qed

text \<open>
  Claim C10. \<^verbatim>\<open>Do\<close> is not total on piece rows with a NULL raw size:
  whenever the loads succeed, every CID parses and a loaded piece has a NULL raw
  size, it panics with a nil dereference. There is no error return, the tables
  are untouched and no call has been made.
\<close>

theorem Do_panics_on_null_raw_size:
  "selectSectorParams env d taskID = Inr [sp] \<and>
   selectPieces env d (SpID sp) (SectorNumber sp) = Inr ps \<and>
   SectorSize env (RegSealProof sp) = Inr ssize \<and>
   (\<forall>p \<in> set ps. \<exists>c. cid_Parse env (PieceCIDStr p) = Inr c) \<and>
   (\<exists>p \<in> set ps. DataRawSize p = None) \<longrightarrow>
     Do env taskID stillOwned d = (Panics NilPointerDereference, d, [])"
proof
  assume h: "selectSectorParams env d taskID = Inr [sp] \<and>
    selectPieces env d (SpID sp) (SectorNumber sp) = Inr ps \<and>
    SectorSize env (RegSealProof sp) = Inr ssize \<and>
    (\<forall>p \<in> set ps. \<exists>c. cid_Parse env (PieceCIDStr p) = Inr c) \<and>
    (\<exists>p \<in> set ps. DataRawSize p = None)"
  then have "piecesLoop env ps 0 [] = Crash NilPointerDereference"
    by (intro piecesLoop_null) simp_all
  moreover from h have "ps \<noteq> []" by auto
  ultimately have "computeCommD env (RegSealProof sp) ssize ps = (Crash NilPointerDereference, [])"
    by (simp add: computeCommD_def buildPieceInfos_def)
  with h show "Do env taskID stillOwned d = (Panics NilPointerDereference, d, [])"
    by (simp add: Do_loaded)
qed

text \<open>
  The sector whose one piece has a NULL raw size.
\<close>

theorem Do_panics_on_null_raw_size_witness:
  "Do refEnv 7 (\<lambda>_. True) dbNullRaw = (Panics NilPointerDereference, dbNullRaw, [])"
proof -
  let ?sp = "\<lparr>SpID = 1000, SectorNumber = 1, RegSealProof = 0\<rparr>"
  let ?ps = "[\<lparr>PieceIndex = 0, PieceCIDStr = ''baga'', PieceSize = 1024, DataRawSize = None\<rparr>]"
  have a: "selectSectorParams refEnv dbNullRaw 7 = Inr [?sp]" by code_simp
  have b: "selectPieces refEnv dbNullRaw (SpID ?sp) (SectorNumber ?sp) = Inr ?ps" by code_simp
  have c: "SectorSize refEnv (RegSealProof ?sp) = Inr 2048" by code_simp
  have e: "\<forall>p \<in> set ?ps. \<exists>c. cid_Parse refEnv (PieceCIDStr p) = Inr c"
    by (simp add: refEnv_def)
  have f: "\<exists>p \<in> set ?ps. DataRawSize p = None" by simp
  from Do_panics_on_null_raw_size [where env = refEnv and d = dbNullRaw and taskID = 7
      and sp = ?sp and ps = ?ps and ssize = 2048 and stillOwned = "\<lambda>_. True"] a b c e f
  show ?thesis by blast
qed

lemma piecesLoop_ignores_index:
  "map withoutIndex ps = map withoutIndex ps' \<Longrightarrow>
     piecesLoop env ps offset infos = piecesLoop env ps' offset infos"
proof (induction ps arbitrary: ps' offset infos)
  case Nil
  then show ?case by simp
next
  case (Cons p ps)
  then obtain p' qs where ps': "ps' = p' # qs" by (cases ps') auto
  with Cons.prems have rest: "map withoutIndex ps = map withoutIndex qs"
    and "withoutIndex p = withoutIndex p'"
    by simp_all
  then have same: "PieceCIDStr p = PieceCIDStr p'" "PieceSize p = PieceSize p'"
    "DataRawSize p = DataRawSize p'"
    by (simp_all add: withoutIndex_def)
  from Cons.IH [OF rest] ps' same show ?case
    by (simp split: sum.splits prod.splits option.splits)
qed

text \<open>
  Claim C4, as amended. The commitment computation never reads a piece's
  index: two piece sequences that agree on CID, padded size and raw size, in
  order, give the same result and the same calls, whatever their indices.
\<close>

theorem computeCommD_ignores_index:
  "map withoutIndex ps = map withoutIndex ps' \<Longrightarrow>
     computeCommD env proof ssize ps = computeCommD env proof ssize ps'"
proof -
  assume same: "map withoutIndex ps = map withoutIndex ps'"
  then have "length ps = length ps'" by (rule map_eq_imp_length_eq)
  with piecesLoop_ignores_index [OF same, of env 0 "[]"] show ?thesis
    by (simp add: computeCommD_def buildPieceInfos_def)
qed

text \<open>
  The same piece at index 3 and at index 0.
\<close>

theorem computeCommD_ignores_index_witness:
  "computeCommD refEnv 0 2048
     [\<lparr>PieceIndex = 3, PieceCIDStr = ''baga'', PieceSize = 1024, DataRawSize = Some 1016\<rparr>] =
   computeCommD refEnv 0 2048
     [\<lparr>PieceIndex = 0, PieceCIDStr = ''baga'', PieceSize = 1024, DataRawSize = Some 1016\<rparr>]"
  by (rule computeCommD_ignores_index) (simp add: withoutIndex_def)

text \<open>
  Claim C4 as stated fails: a sector whose only piece has index 5 is sealed,
  with a commitment over that piece and the trailing filler.
\<close>

theorem Do_accepts_index_gap:
  "fst (Do refEnv 7 (\<lambda>_. True) dbIndexFive) = Returns (True, None) \<and>
   sdrCommitments (snd (snd (Do refEnv 7 (\<lambda>_. True) dbIndexFive))) =
     [UnsealedCid 0 [(1024, ParsedCid ''baga''), (1024, ZeroCommitment 1016)]]"
  by code_simp

section \<open>Word arithmetic of the size conversions\<close>

lemma pow2_lt_2p64: "k < 64 \<Longrightarrow> (2::nat) ^ k < 2 ^ 64"
  by (rule power_strict_increasing) simp_all

lemma unat_pow2_u64: "k < 64 \<Longrightarrow> unat (2 ^ k :: u64) = 2 ^ k"
proof -
  assume k: "k < 64"
  have "(2 ^ k :: u64) = of_nat (2 ^ k)" by simp
  then have "unat (2 ^ k :: u64) = unat (of_nat (2 ^ k) :: u64)" by (rule arg_cong)
  also have "\<dots> = 2 ^ k mod 2 ^ LENGTH(64)" by (rule unat_of_nat)
  also have "\<dots> = 2 ^ k mod 2 ^ 64" by simp
  also have "\<dots> = 2 ^ k" using pow2_lt_2p64 [OF k] by (rule mod_less)
  finally show ?thesis .
qed

lemma unat_lt_2p64: "unat (w :: u64) < 2 ^ 64"
proof -
  have "unat w < 2 ^ LENGTH(64)" by (rule unsigned_less)
  then show ?thesis by simp
qed

lemma unat_add_no_wrap:
  fixes x y :: u64
  assumes "unat x + unat y < 2 ^ 64"
  shows "unat (x + y) = unat x + unat y"
proof -
  from assms have "unat x + unat y < 2 ^ LENGTH(64)" by simp
  then show ?thesis by (simp only: unat_add_lem)
qed

lemma unat_padded:
  fixes s :: u64
  assumes "unat s = 127 * a" and "128 * a < 2 ^ 64"
  shows "unat (s + s div 127) = 128 * a"
proof -
  have d: "unat (s div 127) = a" using assms(1) by (simp add: unat_div)
  with assms have "unat s + unat (s div 127) < 2 ^ 64" by simp
  then have "unat (s + s div 127) = unat s + unat (s div 127)"
    by (rule unat_add_no_wrap)
  with d assms(1) show ?thesis by simp
qed

lemma unat_unpadded:
  fixes s :: u64
  assumes "unat s = 128 * b"
  shows "unat (s - s div 128) = 127 * b"
proof -
  have d: "unat (s div 128) = b" using assms by (simp add: unat_div)
  then have "s div 128 \<le> s" using assms by (simp add: word_le_nat_alt)
  then have "unat (s - s div 128) = unat s - unat (s div 128)" by (rule unat_sub)
  with d assms show ?thesis by simp
qed

section \<open>Blocks of powers of two\<close>

lemma sum_pow2_bits_nat:
  fixes m :: nat
  shows "sum_list (map (\<lambda>i. 2 ^ i) (filter (bit m) [0..<n])) = take_bit n m"
proof (induction n)
  case 0
  show ?case by simp
next
  case (Suc n)
  then show ?case by (simp add: take_bit_Suc_from_most)
qed

lemma sum_pow2_bits_word:
  fixes w :: u64
  shows "sum_list (map (\<lambda>i. (2::nat) ^ i) (filter (bit w) [0..<64])) = unat w"
proof -
  have "filter (bit w) [0..<64] = filter (bit (unat w)) [0..<64]"
    by (rule filter_cong) (simp_all add: bit_unsigned_iff)
  moreover have "take_bit 64 (unat w) = unat w"
    using unat_lt_2p64 [of w] by (simp only: take_bit_nat_eq_self)
  ultimately show ?thesis using sum_pow2_bits_nat [of "unat w" 64] by simp
qed

lemma map_unat_pow2:
  "\<forall>i \<in> set js. i < 64 \<Longrightarrow> map unat (map (\<lambda>i. 2 ^ i :: u64) js) = map (\<lambda>i. 2 ^ i) js"
  by (induction js) (simp_all add: unat_pow2_u64)

lemma sum_pow2BlocksUp: "sum_list (map unat (pow2BlocksUp w)) = unat w"
proof -
  have "\<forall>i \<in> set (filter (bit w) [0..<64]). i < 64" by simp
  from map_unat_pow2 [OF this] show ?thesis
    by (simp only: pow2BlocksUp_def sum_pow2_bits_word)
qed

section \<open>The reference instance meets the contracts\<close>

lemma refEnv_sizeConversions: "sizeConversions refEnv"
  by (simp add: sizeConversions_def refEnv_def refPadded_def refUnpadded_def)

lemma unat_neg_u64:
  fixes x :: u64
  shows "unat (- x) = (if x = 0 then 0 else 2 ^ 64 - unat x)"
proof (cases "x = 0")
  case True
  then show ?thesis by simp
next
  case False
  then have "unat x \<noteq> 0" by (simp add: unat_eq_zero)
  moreover have "unat (0 - x) = (if unat x \<le> unat (0::u64) then unat (0::u64) - unat x
      else unat (0::u64) + 2 ^ LENGTH(64) - unat x)"
    by (rule unat_sub_if')
  ultimately show ?thesis using False by simp
qed

lemma pow2_dvd_neg_mod:
  fixes x :: nat
  assumes "k \<le> 64" and "0 < x" and "x < 2 ^ 64"
  shows "2 ^ k dvd x + (2 ^ 64 - x) mod 2 ^ k"
proof -
  have "(x + (2 ^ 64 - x) mod 2 ^ k) mod 2 ^ k = (x + (2 ^ 64 - x)) mod 2 ^ k"
    by (rule mod_add_right_eq)
  also have "x + (2 ^ 64 - x) = 2 ^ 64" using assms(3) by simp
  also have "(2::nat) ^ 64 mod 2 ^ k = 0"
    using assms(1) by (simp only: le_imp_power_dvd dvd_imp_mod_0)
  finally show ?thesis by (simp only: dvd_eq_mod_eq_0)
qed

lemma refEnv_paddingAligns: "paddingAligns refEnv"
  unfolding paddingAligns_def
proof (intro allI impI conjI)
  fix old new :: u64 and pads padLength k
  assume g: "GetRequiredPadding refEnv old new = (pads, padLength)"
  then have pads: "pads = pow2BlocksUp padLength" and pl: "padLength = (- old) mod new"
    by (auto simp: refEnv_def refGetRequiredPadding_def Let_def)
  show "sum_list (map unat pads) = unat padLength"
    unfolding pads by (rule sum_pow2BlocksUp)
  assume k: "k < 64 \<and> new = 2 ^ k"
  then have new: "unat new = 2 ^ k" by (simp add: unat_pow2_u64)
  with pl have t: "unat padLength = unat (- old) mod 2 ^ k" by (simp add: unat_mod)
  then show "unat padLength < 2 ^ k" by simp
  show "2 ^ k dvd unat old + unat padLength"
  proof (cases "old = 0")
    case True
    with t show ?thesis by simp
  next
    case False
    then have "0 < unat old" by (simp add: unat_gt_0)
    with pow2_dvd_neg_mod [of k "unat old"] k unat_lt_2p64 [of old]
    have "2 ^ k dvd unat old + (2 ^ 64 - unat old) mod 2 ^ k" by simp
    with t False show ?thesis by (simp add: unat_neg_u64)
  qed
qed

lemma bit_nat_below:
  fixes q :: nat
  assumes "q < 2 ^ n" and "bit q i"
  shows "i < n"
proof (rule ccontr)
  assume "\<not> i < n"
  then have "(2::nat) ^ n \<le> 2 ^ i" by (simp add: power_increasing)
  with assms(1) have "q < 2 ^ i" by (rule less_le_trans)
  then have "q div 2 ^ i = 0" by simp
  with assms(2) show False by (simp add: bit_iff_odd)
qed

lemma unat_padded_filler:
  assumes "i < 57"
  shows "unat (refPadded (127 * 2 ^ i)) = 128 * 2 ^ i"
proof -
  from assms have lt: "(2::nat) ^ i < 2 ^ 57" by (rule power_strict_increasing) simp
  from assms have u: "unat (2 ^ i :: u64) = 2 ^ i" by (simp add: unat_pow2_u64)
  have "unat (127 :: u64) * unat (2 ^ i :: u64) < 2 ^ LENGTH(64)"
    using lt u by simp
  then have "unat (127 * 2 ^ i :: u64) = unat (127 :: u64) * unat (2 ^ i :: u64)"
    by (simp only: unat_mult_lem)
  with u have m: "unat (127 * 2 ^ i :: u64) = 127 * 2 ^ i" by simp
  from lt have "128 * (2::nat) ^ i < 2 ^ 64" by simp
  with m show ?thesis unfolding refPadded_def by (rule unat_padded)
qed

lemma sum_padded_fillers:
  "\<forall>i \<in> set js. i < 57 \<Longrightarrow>
     sum_list (map (\<lambda>fil. unat (refPadded fil)) (map (\<lambda>b. 127 * b) (map (\<lambda>i. 2 ^ i) js))) =
       128 * sum_list (map (\<lambda>i. 2 ^ i) js)"
  by (induction js) (simp_all add: unat_padded_filler)

lemma refEnv_fillersExact: "fillersExact refEnv"
  unfolding fillersExact_def
proof (intro allI impI)
  fix rem :: u64 and q
  assume h: "unat rem = 127 * q \<and> q < 2 ^ 57"
  let ?d = "rem div 127"
  from h have d: "unat ?d = q" by (simp add: unat_div)
  from h have "unat (rem mod 127) = 0" by (simp add: unat_mod)
  then have aligned: "rem mod 127 = 0" by (simp add: unat_eq_zero)
  from h d have small: "?d < 2 ^ 57" by (simp add: word_less_nat_alt)
  let ?js = "filter (bit ?d) [0..<64]"
  have "\<forall>i \<in> set ?js. i < 57"
  proof
    fix i assume "i \<in> set ?js"
    then have "bit (unat ?d) i" by (simp add: bit_unsigned_iff)
    with h d show "i < 57" using bit_nat_below [of q 57 i] by simp
  qed
  then have "\<forall>i \<in> set (rev ?js). i < 57" by simp
  from sum_padded_fillers [OF this]
  have "sum_list (map (\<lambda>fil. unat (refPadded fil)) (map (\<lambda>b. 127 * b) (pow2BlocksDown ?d))) =
      128 * sum_list (map (\<lambda>i. 2 ^ i) ?js)"
    by (simp add: pow2BlocksDown_def rev_map [symmetric])
  also have "\<dots> = 128 * q" using sum_pow2_bits_word [of ?d] d by simp
  finally have "sum_list (map (\<lambda>fil. unat (refPadded fil))
      (map (\<lambda>b. 127 * b) (pow2BlocksDown ?d))) = 128 * q" .
  with aligned small
  show "\<exists>fillerSize. FillersFromRem refEnv rem = Inr fillerSize \<and>
           sum_list (map (\<lambda>fil. unat (Padded refEnv fil)) fillerSize) = 128 * q"
    by (simp add: refEnv_def refFillersFromRem_def)
qed

section \<open>The layout of whole pieces\<close>

lemma roundup_eq:
  fixes x r s :: nat
  assumes "r < s" and "s dvd x + r"
  shows "(x + s - 1) div s * s = x + r"
proof -
  from assms(2) obtain t where t: "x + r = s * t" ..
  from assms(1) have "x + s - 1 = s * t + (s - 1 - r)" using t by simp
  moreover from assms(1) have "s - 1 - r < s" by simp
  ultimately have "(x + s - 1) div s = t" by simp
  with t show ?thesis by (simp add: mult.commute)
qed

lemma roundup_ge:
  fixes x s :: nat
  assumes "0 < s"
  shows "x \<le> (x + s - 1) div s * s"
proof -
  have "x + s - 1 = (x + s - 1) div s * s + (x + s - 1) mod s" by simp
  moreover have "(x + s - 1) mod s \<le> s - 1" using assms
    by (metis Suc_pred less_Suc_eq_le mod_less_divisor One_nat_def)
  ultimately show ?thesis using assms by linarith
qed

lemma layoutEnd_ge:
  "\<forall>s \<in> set ss. 0 < s \<Longrightarrow> pos \<le> layoutEnd pos ss"
proof (induction ss arbitrary: pos)
  case Nil
  show ?case by simp
next
  case (Cons s ss)
  then have "0 < s" by simp
  from roundup_ge [OF this, of pos] have "pos \<le> (pos + s - 1) div s * s + s" by simp
  also from Cons have "\<dots> \<le> layoutEnd ((pos + s - 1) div s * s + s) ss" by simp
  finally show ?case by simp
qed

lemma totalPadded_append [simp]:
  "totalPadded (xs @ ys) = totalPadded xs + totalPadded ys"
  by (simp add: totalPadded_def)

lemma totalPadded_single [simp]: "totalPadded [i] = unat (Size i)"
  by (simp add: totalPadded_def)

lemma totalPadded_padInfos [simp]:
  "totalPadded (padInfos env pads) = sum_list (map unat pads)"
  by (simp add: totalPadded_def padInfos_def comp_def)

lemma totalPadded_fillerInfos [simp]:
  "totalPadded (fillerInfos env fills) = sum_list (map (\<lambda>fil. unat (Padded env fil)) fills)"
  by (simp add: totalPadded_def fillerInfos_def comp_def)

lemma piecesLoop_whole:
  assumes sc: "sizeConversions env" and pa: "paddingAligns env"
  shows "\<forall>p \<in> set ps. wholePiece env p \<Longrightarrow>
     unat offset = 127 * a \<Longrightarrow> totalPadded infos = 128 * a \<Longrightarrow>
     layoutEnd (128 * a) (map (\<lambda>p. unat (PieceSize p)) ps) < 2 ^ 64 \<Longrightarrow>
     \<exists>offset' infos' a'.
        piecesLoop env ps offset infos = Next (offset', infos') \<and>
        unat offset' = 127 * a' \<and> totalPadded infos' = 128 * a' \<and>
        128 * a' = layoutEnd (128 * a) (map (\<lambda>p. unat (PieceSize p)) ps)"
proof (induction ps arbitrary: offset infos a)
  case Nil
  then show ?case by simp
next
  case (Cons p ps)
  let ?sizes = "map (\<lambda>p. unat (PieceSize p)) ps"
  from Cons.prems(1) have wp: "wholePiece env p" and rest: "\<forall>q \<in> set ps. wholePiece env q"
    by simp_all
  from wp obtain c k where c: "cid_Parse env (PieceCIDStr p) = Inr c"
    and k: "7 \<le> k" "k < 64" and sz: "PieceSize p = 2 ^ k"
    and raw: "DataRawSize p = Some (Unpadded env (PieceSize p))"
    by (auto simp: wholePiece_def)
  from k sz have usz: "unat (PieceSize p) = 2 ^ k" by (simp add: unat_pow2_u64)
  have pos: "\<forall>s \<in> set (unat (PieceSize p) # ?sizes). 0 < s"
  proof
    fix s assume "s \<in> set (unat (PieceSize p) # ?sizes)"
    then obtain q where "q \<in> set (p # ps)" "s = unat (PieceSize q)" by auto
    with Cons.prems(1) obtain j where "j < 64" "PieceSize q = 2 ^ j"
      by (auto simp: wholePiece_def)
    with \<open>s = unat (PieceSize q)\<close> show "0 < s" by (simp add: unat_pow2_u64)
  qed
  from layoutEnd_ge [OF pos, of "128 * a"] Cons.prems(4)
  have abound: "128 * a < 2 ^ 64" by simp
  from sc have P: "Padded env offset = offset + offset div 127"
    and U: "\<And>s. Unpadded env s = s - s div 128"
    by (simp_all add: sizeConversions_def)
  from unat_padded [OF Cons.prems(2) abound] P
  have uP: "unat (Padded env offset) = 128 * a" by simp
  obtain pads padLength where
    g: "GetRequiredPadding env (Padded env offset) (PieceSize p) = (pads, padLength)"
    by (cases "GetRequiredPadding env (Padded env offset) (PieceSize p)")
  with pa k sz uP have spads: "sum_list (map unat pads) = unat padLength"
    and plt: "unat padLength < 2 ^ k" and pdvd: "2 ^ k dvd 128 * a + unat padLength"
    unfolding paddingAligns_def by (metis)+
  have "(2::nat) ^ 7 dvd 2 ^ k" using k(1) by (rule le_imp_power_dvd)
  then have "128 dvd 128 * a + unat padLength" using pdvd by (simp add: dvd_trans)
  then have "128 dvd unat padLength" by (simp add: dvd_add_right_iff)
  then obtain b where b: "unat padLength = 128 * b" ..
  from k(1) have "(2::nat) ^ k = 2 ^ (7 + (k - 7))" by simp
  also have "\<dots> = 2 ^ 7 * 2 ^ (k - 7)" by (rule power_add)
  finally have k7: "(2::nat) ^ k = 128 * 2 ^ (k - 7)" by simp
  let ?a' = "a + b + 2 ^ (k - 7)"
  from roundup_eq [OF plt pdvd] b k7 usz
  have stepPos: "(128 * a + unat (PieceSize p) - 1) div unat (PieceSize p) * unat (PieceSize p)
      + unat (PieceSize p) = 128 * ?a'"
    by simp
  then have le: "layoutEnd (128 * a) (unat (PieceSize p) # ?sizes) = layoutEnd (128 * ?a') ?sizes"
    by simp
  with Cons.prems(4) have bound': "layoutEnd (128 * ?a') ?sizes < 2 ^ 64" by simp
  from pos have "\<forall>s \<in> set ?sizes. 0 < s" by simp
  from layoutEnd_ge [OF this, of "128 * ?a'"] bound'
  have a'bound: "128 * ?a' < 2 ^ 64" by simp
  from unat_unpadded [OF b] U have uUpl: "unat (Unpadded env padLength) = 127 * b" by simp
  from usz k7 have "unat (PieceSize p) = 128 * 2 ^ (k - 7)" by simp
  from unat_unpadded [OF this] U
  have uraw: "unat (Unpadded env (PieceSize p)) = 127 * 2 ^ (k - 7)" by simp
  from Cons.prems(2) uUpl a'bound
  have "unat offset + unat (Unpadded env padLength) < 2 ^ 64" by simp
  from unat_add_no_wrap [OF this] Cons.prems(2) uUpl
  have o1: "unat (offset + Unpadded env padLength) = 127 * (a + b)" by simp
  with uraw a'bound
  have "unat (offset + Unpadded env padLength) + unat (Unpadded env (PieceSize p)) < 2 ^ 64"
    by simp
  from unat_add_no_wrap [OF this] o1 uraw
  have o2: "unat (offset + Unpadded env padLength + Unpadded env (PieceSize p)) = 127 * ?a'"
    by simp
  let ?infos' = "infos @ padInfos env pads @ [\<lparr>Size = PieceSize p, PieceCID = c\<rparr>]"
  from Cons.prems(3) spads b usz k7 have t': "totalPadded ?infos' = 128 * ?a'"
    by simp
  from Cons.IH [OF rest o2 t' bound']
  obtain offset' infos' a'' where
    "piecesLoop env ps (offset + Unpadded env padLength + Unpadded env (PieceSize p)) ?infos'
       = Next (offset', infos')"
    "unat offset' = 127 * a''" "totalPadded infos' = 128 * a''"
    "128 * a'' = layoutEnd (128 * ?a') ?sizes"
    by blast
  with c g raw le show ?case by simp
qed

text \<open>
  Claim C1, as amended. Let the size conversions be the 127/128 ratio, let the
  alignment padding add up to its length and reach the next multiple of the
  piece's size, and let the trailing fillers of a remainder of whole 127-byte
  units add up, padded, to that remainder. Then for a non-empty sequence of
  pieces whose CIDs parse, whose padded sizes are powers of two from 128 up and
  whose raw size is the unpadded form of the padded size, placed in a sector of
  whole 128-byte units that they fit in, the piece-info sequence is built, it is
  the one handed to the aggregation, and its total padded length is the sector
  size.
\<close>

theorem whole_pieces_fill_sector:
  assumes "sizeConversions env" and "paddingAligns env" and "fillersExact env"
    and "ps \<noteq> []" and "\<forall>p \<in> set ps. wholePiece env p"
    and "unat ssize = 128 * m"
    and "layoutEnd 0 (map (\<lambda>p. unat (PieceSize p)) ps) \<le> unat ssize"
  shows "\<exists>pieceInfos.
     buildPieceInfos env ssize ps = Next pieceInfos \<and>
     totalPadded pieceInfos = unat ssize \<and>
     snd (computeCommD env proof ssize ps) = [GenerateUnsealedCIDCall proof pieceInfos]"
proof -
  let ?sizes = "map (\<lambda>p. unat (PieceSize p)) ps"
  have "unat ssize < 2 ^ 64" by (rule unat_lt_2p64)
  with assms(7) have "layoutEnd (128 * 0) ?sizes < 2 ^ 64" by simp
  from piecesLoop_whole [OF assms(1,2,5), of 0 0 "[]", OF _ _ this]
  obtain offset infos a where loop: "piecesLoop env ps 0 [] = Next (offset, infos)"
    and uo: "unat offset = 127 * a" and tp: "totalPadded infos = 128 * a"
    and le: "128 * a = layoutEnd 0 ?sizes"
    by (auto simp: totalPadded_def)
  from le assms(6,7) have am: "a \<le> m" by simp
  from assms(1) have U: "Unpadded env ssize = ssize - ssize div 128"
    by (simp add: sizeConversions_def)
  from unat_unpadded [OF assms(6)] U have uU: "unat (Unpadded env ssize) = 127 * m" by simp
  with uo am have "offset \<le> Unpadded env ssize" by (simp add: word_le_nat_alt)
  then have "unat (Unpadded env ssize - offset) = unat (Unpadded env ssize) - unat offset"
    by (rule unat_sub)
  with uU uo have urem: "unat (Unpadded env ssize - offset) = 127 * (m - a)"
    by (simp add: diff_mult_distrib2)
  from assms(6) unat_lt_2p64 [of ssize] have "m - a < 2 ^ 57" by simp
  with assms(3) urem obtain fillerSize where
    f: "FillersFromRem env (Unpadded env ssize - offset) = Inr fillerSize"
    and sf: "sum_list (map (\<lambda>fil. unat (Padded env fil)) fillerSize) = 128 * (m - a)"
    unfolding fillersExact_def by blast
  let ?all = "infos @ fillerInfos env fillerSize"
  from loop f have b: "buildPieceInfos env ssize ps = Next ?all"
    by (simp add: buildPieceInfos_def)
  moreover from tp sf am assms(6) have "totalPadded ?all = unat ssize" by simp
  moreover from b assms(4)
  have "snd (computeCommD env proof ssize ps) = [GenerateUnsealedCIDCall proof ?all]"
    by (simp add: computeCommD_def split: sum.splits)
  ultimately show ?thesis by blast
qed

text \<open>
  Pieces of 128 and 512 padded bytes in a sector of 2048: the pieces, 384 bytes
  of alignment and 1024 bytes of trailing filler.
\<close>

theorem whole_pieces_fill_sector_witness:
  "buildPieceInfos refEnv 2048
     [\<lparr>PieceIndex = 0, PieceCIDStr = ''baga'', PieceSize = 128, DataRawSize = Some 127\<rparr>,
      \<lparr>PieceIndex = 1, PieceCIDStr = ''bagb'', PieceSize = 512, DataRawSize = Some 508\<rparr>] =
     Next
       [\<lparr>Size = 128, PieceCID = ParsedCid ''baga''\<rparr>,
        \<lparr>Size = 128, PieceCID = ZeroCommitment 127\<rparr>,
        \<lparr>Size = 256, PieceCID = ZeroCommitment 254\<rparr>,
        \<lparr>Size = 512, PieceCID = ParsedCid ''bagb''\<rparr>,
        \<lparr>Size = 1024, PieceCID = ZeroCommitment 1016\<rparr>] \<and>
   totalPadded
       [\<lparr>Size = 128, PieceCID = ParsedCid ''baga''\<rparr>,
        \<lparr>Size = 128, PieceCID = ZeroCommitment 127\<rparr>,
        \<lparr>Size = 256, PieceCID = ZeroCommitment 254\<rparr>,
        \<lparr>Size = 512, PieceCID = ParsedCid ''bagb''\<rparr>,
        \<lparr>Size = 1024, PieceCID = ZeroCommitment 1016\<rparr>] = 2048"
proof -
  let ?p0 = "\<lparr>PieceIndex = 0, PieceCIDStr = ''baga'', PieceSize = 128, DataRawSize = Some 127\<rparr>"
  let ?p1 = "\<lparr>PieceIndex = 1, PieceCIDStr = ''bagb'', PieceSize = 512, DataRawSize = Some 508\<rparr>"
  have k0: "\<exists>k. 7 \<le> k \<and> k < 64 \<and> (128 :: u64) = 2 ^ k" by (rule exI [of _ 7]) simp
  have k1: "\<exists>k. 7 \<le> k \<and> k < 64 \<and> (512 :: u64) = 2 ^ k" by (rule exI [of _ 9]) simp
  have whole: "\<forall>p \<in> set [?p0, ?p1]. wholePiece refEnv p"
    using k0 k1 by (simp add: wholePiece_def refEnv_def refUnpadded_def)
  have cap: "unat (2048 :: u64) = 128 * 16" by simp
  have fits: "layoutEnd 0 (map (\<lambda>p. unat (PieceSize p)) [?p0, ?p1]) \<le> unat (2048 :: u64)"
    by simp
  have run: "buildPieceInfos refEnv 2048 [?p0, ?p1] =
     Next
       [\<lparr>Size = 128, PieceCID = ParsedCid ''baga''\<rparr>,
        \<lparr>Size = 128, PieceCID = ZeroCommitment 127\<rparr>,
        \<lparr>Size = 256, PieceCID = ZeroCommitment 254\<rparr>,
        \<lparr>Size = 512, PieceCID = ParsedCid ''bagb''\<rparr>,
        \<lparr>Size = 1024, PieceCID = ZeroCommitment 1016\<rparr>]"
    by code_simp
  from whole_pieces_fill_sector [OF refEnv_sizeConversions refEnv_paddingAligns
      refEnv_fillersExact _ whole cap fits, of 0] run
  show ?thesis by auto
qed

text \<open>
  Claim C1 as stated fails when a raw size is smaller than the unpadded form
  of the padded size: the offset advances by the raw size, the piece-info entry
  has the padded size. A piece of 1024 padded bytes with 127 raw bytes in a
  sector of 2048 gives a sequence of 2944 padded bytes, which is sealed.
\<close>

theorem short_raw_size_overfills_sector:
  "SectorSize refEnv 0 = Inr 2048 \<and>
   fst (Do refEnv 7 (\<lambda>_. True) dbShortRaw) = Returns (True, None) \<and>
   snd (snd (Do refEnv 7 (\<lambda>_. True) dbShortRaw)) ! 0 =
     GenerateUnsealedCIDCall 0
       [\<lparr>Size = 1024, PieceCID = ParsedCid ''baga''\<rparr>,
        \<lparr>Size = 1024, PieceCID = ZeroCommitment 1016\<rparr>,
        \<lparr>Size = 512, PieceCID = ZeroCommitment 508\<rparr>,
        \<lparr>Size = 256, PieceCID = ZeroCommitment 254\<rparr>,
        \<lparr>Size = 128, PieceCID = ZeroCommitment 127\<rparr>] \<and>
   totalPadded
       [\<lparr>Size = 1024, PieceCID = ParsedCid ''baga''\<rparr>,
        \<lparr>Size = 1024, PieceCID = ZeroCommitment 1016\<rparr>,
        \<lparr>Size = 512, PieceCID = ZeroCommitment 508\<rparr>,
        \<lparr>Size = 256, PieceCID = ZeroCommitment 254\<rparr>,
        \<lparr>Size = 128, PieceCID = ZeroCommitment 127\<rparr>] = 2944"
  by code_simp


section \<open>Pieces beyond the sector\<close>




end
